theory Spec2Isabelle
  imports Main "HOL-Library.Word"
begin

section \<open>Go values used by webserver.go\<close>

text \<open>
  A Go \<open>int64\<close> is a 64-bit word read as a signed number: \<open>+\<close> and \<open>*\<close> wrap,
  \<open>sint\<close> reads the value, \<open><s\<close> and \<open>\<le>s\<close> are the signed comparisons.
  A \<open>time.Time\<close> is modelled by the instant it denotes, counted in nanoseconds (the unit
  of \<open>time.Duration\<close>); locations and the formatting of a time for the database are not
  modelled.
\<close>

type_synonym int64 = "64 word"
type_synonym time = int

text \<open>
  A run-time panic of the Go program and the exit of the process through
  \<open>logrus.Fatalf\<close> are values of the model: a function that can end in one of them returns
  \<open>fault + 'a\<close>, with \<open>Inl\<close> for the fault.
\<close>

datatype fault =
    TypeAssertionPanic   \<comment> \<open>\<open>x.(T)\<close> in its one-result form, on a value that is not a \<open>T\<close>\<close>
  | NilPointerPanic      \<comment> \<open>a field read through a nil pointer\<close>
  | ClosedChannelPanic   \<comment> \<open>\<open>close\<close> of a channel that is closed\<close>
  | FatalExit            \<comment> \<open>\<open>logrus.Fatalf\<close>: the message is logged and the process exits\<close>

section \<open>IsDuplicate\<close>

text \<open>
  The native errors of the two drivers. \<open>sqlite3.Error\<close> is a struct whose \<open>Code\<close> is the
  SQLite result code, and \<open>sqlite3.ErrConstraint\<close> is SQLite's result code 19;
  \<open>mysql.MySQLError\<close> carries a 16-bit \<open>Number\<close>. The code reads no other field.
\<close>

record sqlite3_Error =
  Code :: int

record MySQLError =
  Number :: "16 word"

definition ErrConstraint :: int where
  "ErrConstraint = 19"

text \<open>The zero value of \<open>sqlite3.Error\<close>, which a failed two-result type assertion yields.\<close>

definition zero_sqlite3_Error :: sqlite3_Error where
  "zero_sqlite3_Error = \<lparr>Code = 0\<rparr>"

text \<open>
  A non-nil value of the interface \<open>error\<close>, by its dynamic type: a \<open>sqlite3.Error\<close>
  (a struct), a \<open>*mysql.MySQLError\<close> (a pointer, which may be nil), or any other type.
  The interface value nil is \<open>None\<close> of \<open>go_error option\<close>.
\<close>

datatype go_error =
    SqliteError sqlite3_Error
  | MySQLErrorPtr "MySQLError option"
  | OtherError string

text \<open>
  \<open>IsDuplicate\<close> (lines 308 to 330), with the result of \<open>orm.DriverName()\<close> as its first
  argument. The sqlite3 branch asserts the type in the two-result form and goes on with
  the zero value when the assertion fails (the log line is not modelled); the mysql branch
  asserts in the one-result form, which panics when it fails, and then reads \<open>e.Number\<close>
  through the pointer.
\<close>

definition IsDuplicate :: "string \<Rightarrow> go_error option \<Rightarrow> fault + bool" where
  "IsDuplicate driverName err =
     (case err of
        None \<Rightarrow> Inr False
      | Some x \<Rightarrow>
          if driverName = ''sqlite3'' then
            (let e = (case x of SqliteError s \<Rightarrow> s | _ \<Rightarrow> zero_sqlite3_Error)
             in if Code e = ErrConstraint then Inr True else Inr False)
          else if driverName = ''mysql'' then
            (case x of
               MySQLErrorPtr p \<Rightarrow>
                 (case p of
                    None \<Rightarrow> Inl NilPointerPanic
                  | Some e \<Rightarrow>
                      if Number e = 1062 \<or> Number e = 1169 \<or> Number e = 1022
                      then Inr True else Inr False)
             | _ \<Rightarrow> Inl TypeAssertionPanic)
          else Inr False)"

section \<open>Keys of the key/value store\<close>

text \<open>
  \<open>fmt.Sprintf\<close> as far as this file uses it: the only verb is \<open>%v\<close>, the only
  operands are \<open>int64\<close> values, every other character of the format is copied, and
  operands left over when the format ends are reported as
  \<open>%!(EXTRA type=value, ...)\<close>. An \<open>int64\<close> is printed in decimal, with a leading
  minus sign when it is negative.
\<close>

definition digit_char :: "nat \<Rightarrow> char" where
  "digit_char d = char_of (48 + d)"

fun string_of_nat :: "nat \<Rightarrow> string" where
  "string_of_nat n =
     (if n < 10 then [digit_char n]
      else string_of_nat (n div 10) @ [digit_char (n mod 10)])"

declare string_of_nat.simps [simp del]

definition FormatInt :: "int \<Rightarrow> string" where
  "FormatInt i =
     (if i < 0 then CHR ''-'' # string_of_nat (nat (- i)) else string_of_nat (nat i))"

datatype operand = Int64 int64

fun type_name :: "operand \<Rightarrow> string" where
  "type_name (Int64 n) = ''int64''"

fun format_v :: "operand \<Rightarrow> string" where
  "format_v (Int64 n) = FormatInt (sint n)"

fun extra_operands :: "operand list \<Rightarrow> string" where
  "extra_operands [] = []"
| "extra_operands [a] = type_name a @ ''='' @ format_v a"
| "extra_operands (a # b # as) =
     type_name a @ ''='' @ format_v a @ '', '' @ extra_operands (b # as)"

fun Sprintf :: "string \<Rightarrow> operand list \<Rightarrow> string" where
  "Sprintf [] as = (if as = [] then [] else ''%!(EXTRA '' @ extra_operands as @ '')'')"
| "Sprintf [c] as = c # Sprintf [] as"
| "Sprintf (c # d # fmt) as =
     (if c = CHR ''%'' \<and> d = CHR ''v'' then
        (case as of
           [] \<Rightarrow> ''%!v(MISSING)'' @ Sprintf fmt []
         | a # as' \<Rightarrow> format_v a @ Sprintf fmt as')
      else c # Sprintf (d # fmt) as)"

text \<open>Line 106, in \<open>doClean\<close>: the format has no verb.\<close>

definition userKey :: "int64 \<Rightarrow> string" where
  "userKey n = Sprintf ''id.user'' [Int64 n]"

text \<open>Lines 133 and 183, in \<open>dnsCallBack\<close> and in the loop of \<open>RunStoreRoutine\<close>.\<close>

definition errorCountKey :: "int64 \<Rightarrow> string" where
  "errorCountKey uid = Sprintf ''%v.errcount'' [Int64 uid]"

section \<open>Records, tables and the key/value store\<close>

text \<open>
  The structs that \<open>webserver.go\<close> reads and writes are declared in files of the
  repository that are not at hand (\<open>DnsRecord\<close>, \<open>HttpRecord\<close> and \<open>Cache\<close> in package
  \<open>main\<close>; \<open>TblUser\<close>, \<open>TblDns\<close> and \<open>TblHttp\<close> in package \<open>models\<close>). Their fields are
  the ones \<open>webserver.go\<close> names, live or in its commented-out code, with the spec's
  schema.
\<close>

text \<open>
  Modelled from the spec: the types \<open>DnsRecord\<close> and \<open>HttpRecord\<close> of the interaction
  events (a tagged union \<open>DnsInteraction\<close> or \<open>HttpInteraction\<close>: owning user id, subject,
  source IP, timestamp, an optional callback target, and for HTTP user-agent, payload
  body, content type and method). A pointer delivered on the stream is modelled by the
  struct it points to.
\<close>

record Record =
  Uid :: int64
  Ip :: string
  Ctime :: time
  Callback :: string

record DnsRecord = Record +
  Domain :: string

record HttpRecord = Record +
  Url :: string
  Ua :: string
  Data :: string
  Ctype :: string
  Method :: string

text \<open>
  A value received from \<open>c.Output()\<close>, a channel of \<open>interface{}\<close>, by the cases of the
  type switch at line 170; a value of any other type matches no case.
\<close>

datatype rcd =
    DnsRecordPtr DnsRecord
  | HttpRecordPtr HttpRecord
  | OtherValue

text \<open>
  Modelled from the spec: the types \<open>TblDns\<close>, \<open>TblHttp\<close> and \<open>TblUser\<close> of the rows, by
  the persisted schema \<open>Users(id, retentionIntervalSeconds)\<close>,
  \<open>DnsInteractions(userId, domain, ip, createdAt)\<close> and
  \<open>HttpInteractions(userId, url, ip, userAgent, body, contentType, method, createdAt)\<close>.
  The columns \<open>uid\<close> and \<open>ctime\<close> are the ones the conditions of \<open>doClean\<close> name. The
  retention interval is the \<open>int64\<close> that \<open>time.Duration(user.CleanInterval)\<close> yields.
\<close>

record row =
  uid :: int64
  ip :: string
  ctime :: time

record TblDns = row +
  domain :: string

record TblHttp = row +
  url :: string
  ua :: string
  data :: string
  ctype :: string
  http_method :: string

record TblUser =
  Id :: int64
  CleanInterval :: int64

text \<open>
  Modelled from the spec: the type \<open>Cache\<close>, the key/value store of the event source, with
  \<open>get(key) -> (value, found)\<close>, \<open>delete(key)\<close> and an atomic
  \<open>incrementCounter(key, delta)\<close> for which an absent counter is equivalent to zero. Its
  values are of type \<open>interface{}\<close>: an \<open>int64\<close> counter, a \<open>*models.TblUser\<close>
  (modelled by the struct), or a value of another type. The spec does not say what an
  increment does to a value that is not a counter; the model leaves it as it is.
\<close>

datatype cache_val =
    Int64Val int64
  | UserVal TblUser
  | OtherVal

type_synonym Cache = "string \<rightharpoonup> cache_val"

definition Get :: "Cache \<Rightarrow> string \<Rightarrow> cache_val option" where
  "Get c k = c k"

definition Delete :: "Cache \<Rightarrow> string \<Rightarrow> Cache" where
  "Delete c k = c(k := None)"

definition IncrementInt64 :: "Cache \<Rightarrow> string \<Rightarrow> int64 \<Rightarrow> Cache" where
  "IncrementInt64 c k n =
     (case c k of
        None \<Rightarrow> c(k \<mapsto> Int64Val n)
      | Some (Int64Val v) \<Rightarrow> c(k \<mapsto> Int64Val (v + n))
      | Some _ \<Rightarrow> c)"

section \<open>The state of the server\<close>

text \<open>
  What the functions of \<open>webserver.go\<close> share: the key/value store, the three tables
  behind the \<open>xorm\<close> engine with its driver name, the counter of the wait group, the
  goroutines started so far (a \<open>go\<close> statement appends one; the model does not run it at
  once), and whether the channel \<open>storeQuit\<close> is closed.
\<close>

datatype goroutine =
    CleanRoutine             \<comment> \<open>lines 161 to 164\<close>
  | CallBackRoutine DnsRecord   \<comment> \<open>line 191, \<open>go dnsCallBack(d)\<close>\<close>

record world =
  cache :: Cache
  DriverName :: string
  tblUser :: "TblUser list"
  tblDns :: "TblDns list"
  tblHttp :: "TblHttp list"
  wg :: int
  goroutines :: "goroutine list"
  storeQuit :: bool

definition DefaultMaxCallbackErrorCount :: int64 where
  "DefaultMaxCallbackErrorCount = 5"

section \<open>The callback and the loop of RunStoreRoutine\<close>

text \<open>
  The response of the HTTP client; \<open>dnsCallBack\<close> drains and closes its body and reads
  nothing else of it.
\<close>

record Response =
  StatusCode :: int
  Body :: string

text \<open>
  \<open>dnsCallBack\<close> (lines 129 to 142). What \<open>client.Do\<close> returned is the argument \<open>res\<close>:
  \<open>Inl\<close> a non-nil error, \<open>Inr\<close> a response with a nil error. The client (the library
  \<open>go-retryablehttp\<close>) decides which of the two a delivery ends in; the function branches
  on nothing else. Both paths end with the deferred \<open>wg.Done()\<close>.
\<close>

definition dnsCallBack :: "string + Response \<Rightarrow> DnsRecord \<Rightarrow> world \<Rightarrow> world" where
  "dnsCallBack res rcd w =
     (let key = errorCountKey (Uid rcd) in
      case res of
        Inl err \<Rightarrow> w\<lparr>cache := IncrementInt64 (cache w) key 1, wg := wg w - 1\<rparr>
      | Inr resp \<Rightarrow> w\<lparr>cache := Delete (cache w) key, wg := wg w - 1\<rparr>)"

text \<open>
  A delivery, seen from both sides: the reply that the server of the callback URL sent to
  the last request, if a connection was established and a response received, and what
  \<open>client.Do\<close> returned to \<open>dnsCallBack\<close>. The client derives the second from the first by
  its retry policy, which lines 124 to 127 leave at the default of the library
  \<open>go-retryablehttp\<close>; the library is not among the sources, so a delivery gives both.
\<close>

record Delivery =
  reply :: "Response option"
  returned :: "string + Response"

text \<open>
  One wake-up of the \<open>select\<close> at line 158: the ticker, or a value received from the
  stream together with what \<open>session.InsertOne\<close> returns for it (\<open>None\<close> for a nil error;
  read only in the \<open>*DnsRecord\<close> case). The list of wake-ups ends where the loop finds the
  stream closed.
\<close>

datatype wake =
    Tick
  | Recv rcd "string option"

definition go :: "goroutine \<Rightarrow> world \<Rightarrow> world" where
  "go g w = w\<lparr>wg := wg w + 1, goroutines := goroutines w @ [g]\<rparr>"

text \<open>The body of the case at line 166 for a received value (lines 170 to 216).\<close>

fun on_rcd :: "rcd \<Rightarrow> string option \<Rightarrow> world \<Rightarrow> fault + world" where
  "on_rcd (DnsRecordPtr d) insert_err w =
     (case insert_err of
        Some err \<Rightarrow> Inl FatalExit
      | None \<Rightarrow>
          (let w1 = w\<lparr>tblDns := tblDns w @
                       [\<lparr>uid = Uid d, ip = Ip d, ctime = Ctime d, domain = Domain d\<rparr>]\<rparr>
           in if Callback d \<noteq> [] \<and> 0 <s Uid d then
                (case Get (cache w1) (errorCountKey (Uid d)) of
                   None \<Rightarrow> Inr (go (CallBackRoutine d) w1)
                 | Some v \<Rightarrow>
                     (case v of
                        Int64Val n \<Rightarrow>
                          if DefaultMaxCallbackErrorCount \<le>s n then Inr w1
                          else Inr (go (CallBackRoutine d) w1)
                      | _ \<Rightarrow> Inl TypeAssertionPanic))
              else Inr w1))"
| "on_rcd (HttpRecordPtr h) insert_err w = Inr w"
| "on_rcd OtherValue insert_err w = Inr w"

fun FOR_LOOP :: "wake list \<Rightarrow> world \<Rightarrow> fault + world" where
  "FOR_LOOP [] w = Inr w"
| "FOR_LOOP (Tick # ws) w = FOR_LOOP ws (go CleanRoutine w)"
| "FOR_LOOP (Recv r insert_err # ws) w =
     (case on_rcd r insert_err w of
        Inl f \<Rightarrow> Inl f
      | Inr w' \<Rightarrow> FOR_LOOP ws w')"

text \<open>
  \<open>RunStoreRoutine\<close> (lines 117 to 220) for a stream that is closed after the given
  wake-ups: the loop, then \<open>close(self.storeQuit)\<close>, which panics on a closed channel.
\<close>

definition RunStoreRoutine :: "wake list \<Rightarrow> world \<Rightarrow> fault + world" where
  "RunStoreRoutine ws w =
     (case FOR_LOOP ws w of
        Inl f \<Rightarrow> Inl f
      | Inr w' \<Rightarrow> if storeQuit w' then Inl ClosedChannelPanic else Inr (w'\<lparr>storeQuit := True\<rparr>))"

section \<open>doClean\<close>

definition Second :: int64 where
  "Second = 1000000000"

text \<open>\<open>Time.Add\<close> and \<open>Time.Local\<close>; the latter changes the location, not the instant.\<close>

definition Add :: "time \<Rightarrow> int64 \<Rightarrow> time" where
  "Add t d = t + sint d"

definition Local :: "time \<Rightarrow> time" where
  "Local t = t"

text \<open>
  The delete of \<open>session\<close> under the conditions \<open>uid=?\<close> (the user id) and
  \<open>ctime<?\<close> (the cutoff) on a table: the rows that
  stay. The error the call returns is dropped by the code.
\<close>

definition Where_Delete :: "int64 \<Rightarrow> time \<Rightarrow> ('a row_scheme) list \<Rightarrow> ('a row_scheme) list" where
  "Where_Delete n t rows = filter (\<lambda>r. \<not> (uid r = n \<and> ctime r < t)) rows"

text \<open>The loop at lines 105 to 114.\<close>

fun clean_loop :: "time \<Rightarrow> int64 list \<Rightarrow> world \<Rightarrow> fault + world" where
  "clean_loop now [] w = Inr w"
| "clean_loop now (n # ids) w =
     (case Get (cache w) (userKey n) of
        None \<Rightarrow> clean_loop now ids w
      | Some v \<Rightarrow>
          (case v of
             UserVal user \<Rightarrow>
               (let t = Add now ((- 1) * CleanInterval user * Second)
                in clean_loop now ids
                     (w\<lparr>tblDns := Where_Delete n t (tblDns w),
                        tblHttp := Where_Delete n t (tblHttp w)\<rparr>))
           | _ \<Rightarrow> Inl TypeAssertionPanic))"

text \<open>
  \<open>doClean\<close> (lines 89 to 115), run as one step. \<open>find_err\<close> is the error of the query for
  the user ids (\<open>None\<close> for nil) and \<open>now\<close> is what \<open>time.Now()\<close> returns.
\<close>

definition doClean :: "string option \<Rightarrow> time \<Rightarrow> world \<Rightarrow> fault + world" where
  "doClean find_err now w =
     (case find_err of
        Some err \<Rightarrow> Inr w
      | None \<Rightarrow>
          (let ids = map Id (tblUser w);
               now' = (if DriverName w = ''sqlite'' then Local now else now)
           in clean_loop now' ids w))"

section \<open>Shutdown beside the routine\<close>






text \<open>
  A step of a goroutine that the loop has started and that has not finished: a callback
  (line 191) runs \<open>dnsCallBack\<close> with whatever \<open>client.Do\<close> returns; a cleaner (lines 161
  to 164) runs \<open>doClean\<close> at whatever time and with whatever result of its query, then
  the deferred \<open>wg.Done()\<close>, and its panic at line 109 ends the process. Each is taken as
  one step, and the goroutine that has finished is taken off the list.
\<close>

definition finished :: "nat \<Rightarrow> world \<Rightarrow> world" where
  "finished i w = w\<lparr>goroutines := take i (goroutines w) @ drop (Suc i) (goroutines w)\<rparr>"



section \<open>Notions used in the statements\<close>

text \<open>
  The DNS events among the wake-ups of the loop, in the order of their delivery; the row
  that the \<open>*DnsRecord\<close> case builds from an event (lines 173 to 178); a wake-up whose
  insert, if it makes one, returns a nil error; and a store in which every value under a
  failure-counter key is an \<open>int64\<close>, as the values that \<open>IncrementInt64\<close> writes are.
\<close>

fun delivered_dns :: "wake list \<Rightarrow> DnsRecord list" where
  "delivered_dns [] = []"
| "delivered_dns (Tick # ws) = delivered_dns ws"
| "delivered_dns (Recv r e # ws) =
     (case r of DnsRecordPtr d \<Rightarrow> [d] | _ \<Rightarrow> []) @ delivered_dns ws"

fun insert_succeeds :: "wake \<Rightarrow> bool" where
  "insert_succeeds Tick = True"
| "insert_succeeds (Recv r e) = (e = None)"

definition counters_are_int64 :: "Cache \<Rightarrow> bool" where
  "counters_are_int64 c =
     (\<forall>u v. Get c (errorCountKey u) = Some v \<longrightarrow> (\<exists>n. v = Int64Val n))"

definition TblDns_of :: "DnsRecord \<Rightarrow> TblDns" where
  "TblDns_of d = \<lparr>uid = Uid d, ip = Ip d, ctime = Ctime d, domain = Domain d\<rparr>"

text \<open>
  For \<open>doClean\<close>: a row is expired at the time \<open>now\<close> when the store holds a profile under
  the lookup key of the row's user and the row is older than the cutoff that line 110
  computes from that profile; and a store in which every value under the lookup key of one
  of the given users is a user profile, so that the type assertion at line 109 holds.
\<close>

definition expired :: "Cache \<Rightarrow> time \<Rightarrow> 'a row_scheme \<Rightarrow> bool" where
  "expired c now r =
     (case Get c (userKey (uid r)) of
        Some (UserVal p) \<Rightarrow> ctime r < Add now ((- 1) * CleanInterval p * Second)
      | _ \<Rightarrow> False)"

definition profiles_are_users :: "Cache \<Rightarrow> int64 list \<Rightarrow> bool" where
  "profiles_are_users c ids =
     (\<forall>n\<in>set ids. \<forall>v. Get c (userKey n) = Some v \<longrightarrow> (\<exists>p. v = UserVal p))"







section \<open>Example data\<close>

text \<open>A state with empty tables and an empty store, and a DNS event of a given user.\<close>

definition example_world :: world where
  "example_world =
     \<lparr>cache = Map.empty, DriverName = ''mysql'', tblUser = [], tblDns = [], tblHttp = [],
      wg = 0, goroutines = [], storeQuit = False\<rparr>"

definition example_dns :: "int64 \<Rightarrow> DnsRecord" where
  "example_dns u =
     \<lparr>Uid = u, Ip = ''203.0.113.9'', Ctime = 0, Callback = ''http://hook.example/'',
      Domain = ''x.example''\<rparr>"

definition example_http :: HttpRecord where
  "example_http =
     \<lparr>Uid = 7, Ip = ''203.0.113.9'', Ctime = 0, Callback = [],
      Url = ''/log/x'', Ua = ''curl'', Data = [], Ctype = [], Method = ''GET''\<rparr>"

text \<open>
  A state for \<open>doClean\<close>: the users 1 and 2 in the user table, a profile for user 1 only,
  under the key that \<open>doClean\<close> looks up, and given rows in the DNS table. In
  \<open>example_rows\<close> the times are 09:59:59 and 10:00:01, in nanoseconds after midnight.
\<close>

definition example_rows :: "TblDns list" where
  "example_rows =
     [\<lparr>uid = 1, ip = ''203.0.113.9'', ctime = 35999000000000, domain = ''a.example''\<rparr>,
      \<lparr>uid = 1, ip = ''203.0.113.9'', ctime = 36001000000000, domain = ''b.example''\<rparr>,
      \<lparr>uid = 2, ip = ''203.0.113.9'', ctime = 0, domain = ''c.example''\<rparr>]"

definition example_clean_world :: "int64 \<Rightarrow> TblDns list \<Rightarrow> world" where
  "example_clean_world interval rows =
     \<lparr>cache = [userKey 1 \<mapsto> UserVal \<lparr>Id = 1, CleanInterval = interval\<rparr>],
      DriverName = ''mysql'',
      tblUser = [\<lparr>Id = 1, CleanInterval = interval\<rparr>, \<lparr>Id = 2, CleanInterval = 7200\<rparr>],
      tblDns = rows, tblHttp = [], wg = 0, goroutines = [], storeQuit = False\<rparr>"

text \<open>
  The same state with the profile of user 1 stored under the key \<open>1.user\<close>, formed like
  the counter key \<open>1.errcount\<close> of lines 133 and 183.
\<close>

definition example_conventional_world :: world where
  "example_conventional_world =
     (example_clean_world 7200 example_rows)
       \<lparr>cache := [''1.user'' \<mapsto> UserVal \<lparr>Id = 1, CleanInterval = 7200\<rparr>]\<rparr>"





section \<open>Theorems\<close>

subsection \<open>The keys\<close>

lemma userKey_eq: "userKey n = ''id.user%!(EXTRA int64='' @ FormatInt (sint n) @ '')''"
  by (simp add: userKey_def)

lemma errorCountKey_eq: "errorCountKey u = FormatInt (sint u) @ ''.errcount''"
  by (simp add: errorCountKey_def)

lemma digit_char_inj: "a < 10 \<Longrightarrow> b < 10 \<Longrightarrow> digit_char a = digit_char b \<Longrightarrow> a = b"
  unfolding digit_char_def char_of_eq_iff
  by (simp add: take_bit_eq_mod)

lemma of_char_digit_char: "a < 10 \<Longrightarrow> of_char (digit_char a) = 48 + a"
  by (simp add: digit_char_def)

lemma digit_char_not_minus: "a < 10 \<Longrightarrow> digit_char a \<noteq> CHR ''-''"
proof
  assume "a < 10" and "digit_char a = CHR ''-''"
  then have "(of_char (digit_char a) :: nat) = of_char CHR ''-''" by simp
  with \<open>a < 10\<close> show False by (simp add: of_char_digit_char)
qed

lemma string_of_nat_nonempty: "string_of_nat n \<noteq> []"
  by (subst string_of_nat.simps) simp

lemma string_of_nat_hd: "hd (string_of_nat n) \<noteq> CHR ''-''"
proof (induction n rule: string_of_nat.induct)
  case (1 n)
  show ?case
  proof (cases "n < 10")
    case True
    then show ?thesis
      by (subst string_of_nat.simps) (simp add: digit_char_not_minus)
  next
    case False
    with 1 show ?thesis
      by (subst string_of_nat.simps) (simp add: string_of_nat_nonempty)
  qed
qed

lemma string_of_nat_not_minus: "string_of_nat n \<noteq> CHR ''-'' # s"
  using string_of_nat_hd [of n] by auto

lemma string_of_nat_length: "length (string_of_nat n) = 1 \<longleftrightarrow> n < 10"
  by (subst string_of_nat.simps) (simp add: string_of_nat_nonempty Suc_leI less_Suc_eq_0_disj)

text \<open>Two numbers with the same decimal digits are equal: induction along the digits.\<close>

lemma string_of_nat_inj: "string_of_nat m = string_of_nat n \<Longrightarrow> m = n"
proof (induction m arbitrary: n rule: string_of_nat.induct)
  case (1 m)
  show ?case
  proof (cases "m < 10")
    case True
    with "1.prems" have "n < 10"
      using string_of_nat_length [of m] string_of_nat_length [of n] by simp
    with True "1.prems" show ?thesis
      by (simp add: string_of_nat.simps [of m] string_of_nat.simps [of n] digit_char_inj)
  next
    case False
    with "1.prems" have n: "\<not> n < 10"
      using string_of_nat_length [of m] string_of_nat_length [of n] by simp
    with False "1.prems" have
      "string_of_nat (m div 10) = string_of_nat (n div 10)"
      "digit_char (m mod 10) = digit_char (n mod 10)"
      by (simp_all add: string_of_nat.simps [of m] string_of_nat.simps [of n])
    with False "1.IH" have "m div 10 = n div 10" "m mod 10 = n mod 10"
      by (simp_all add: digit_char_inj)
    then show ?thesis
      by (metis div_mult_mod_eq)
  qed
qed

lemma FormatInt_inj: "FormatInt a = FormatInt b \<Longrightarrow> a = b"
  using string_of_nat_not_minus [of "nat a"] string_of_nat_not_minus [of "nat b"]
    string_of_nat_not_minus [of "nat a", symmetric]
    string_of_nat_not_minus [of "nat b", symmetric]
  by (auto simp: FormatInt_def dest!: string_of_nat_inj split: if_splits)

text \<open>Distinct users have distinct failure counters.\<close>

lemma errorCountKey_inj: "errorCountKey u = errorCountKey v \<Longrightarrow> u = v"
  by (auto simp: errorCountKey_eq dest!: FormatInt_inj intro: signed_word_eqI)

lemma FormatInt_5: "FormatInt 5 = ''5''"
  by code_simp

text \<open>
  C10. For every user id \<open>n\<close> the key under which \<open>doClean\<close> looks the profile up is what
  \<open>Sprintf\<close> makes of the format \<open>id.user\<close>, which has no verb, and the operand \<open>n\<close>: the
  text \<open>id.user%!(EXTRA int64=n)\<close>, for the user 5 \<open>id.user%!(EXTRA int64=5)\<close>. The key of
  the same user's failure counter is \<open>n.errcount\<close>. The lookup key ends in a closing
  bracket, so it is no key of the form \<open>s.user\<close>, whatever stands before the dot.
\<close>

theorem userKey_not_convention:
  "userKey n = ''id.user%!(EXTRA int64='' @ FormatInt (sint n) @ '')''
   \<and> userKey 5 = ''id.user%!(EXTRA int64=5)''
   \<and> errorCountKey n = FormatInt (sint n) @ ''.errcount''
   \<and> errorCountKey 5 = ''5.errcount''
   \<and> (\<forall>s. userKey n \<noteq> s @ ''.user'')"
proof -
  have "userKey n \<noteq> s @ ''.user''" for s
  proof
    assume "userKey n = s @ ''.user''"
    then have "last (userKey n) = last (s @ ''.user'')" by simp
    then show False by (simp add: userKey_eq)
  qed
  then show ?thesis
    by (simp add: userKey_eq errorCountKey_eq FormatInt_5)
qed

subsection \<open>The storage error classifier\<close>

text \<open>
  C2. The claim: with an unsupported backend, or with an error whose dynamic type is not
  the declared backend's native error type, the classifier returns false and never panics.
  The code does so for an unsupported backend and in its sqlite3 branch, whose type
  assertion has two results; its mysql branch asserts with one result. With the driver
  \<open>mysql\<close> and an error that is no \<open>*mysql.MySQLError\<close> (a \<open>sqlite3.Error\<close>, or any other
  error) the call panics, where with the driver \<open>sqlite3\<close> or an unknown driver the same
  error gives false.
\<close>

theorem IsDuplicate_mysql_mismatch_panics:
  "IsDuplicate ''mysql'' (Some (SqliteError \<lparr>Code = 19\<rparr>)) = Inl TypeAssertionPanic
   \<and> IsDuplicate ''mysql'' (Some (OtherError ''EOF'')) = Inl TypeAssertionPanic
   \<and> IsDuplicate ''sqlite3'' (Some (OtherError ''EOF'')) = Inr False
   \<and> IsDuplicate ''postgres'' (Some (OtherError ''EOF'')) = Inr False"
  by (simp add: IsDuplicate_def zero_sqlite3_Error_def ErrConstraint_def)

text \<open>
  C3. The enumerated mapping. For the driver \<open>mysql\<close> and a MySQL error the result is true
  exactly when the error number is 1062, 1169 or 1022 (so 1062 gives true and 1234 false);
  for the driver \<open>sqlite3\<close>, the name under which the code knows the sqlite backend, and a
  SQLite error the result is true exactly when its code is the constraint violation; for
  every other driver name the result is false, whatever the error.
\<close>

theorem IsDuplicate_mapping:
  assumes "d \<noteq> ''sqlite3''" and "d \<noteq> ''mysql''"
  shows "IsDuplicate ''mysql'' (Some (MySQLErrorPtr (Some e))) =
           Inr (Number e = 1062 \<or> Number e = 1169 \<or> Number e = 1022)
       \<and> IsDuplicate ''mysql'' (Some (MySQLErrorPtr (Some \<lparr>Number = 1062\<rparr>))) = Inr True
       \<and> IsDuplicate ''mysql'' (Some (MySQLErrorPtr (Some \<lparr>Number = 1234\<rparr>))) = Inr False
       \<and> IsDuplicate ''sqlite3'' (Some (SqliteError s)) = Inr (Code s = ErrConstraint)
       \<and> IsDuplicate d err = Inr False"
  using assms by (cases err) (simp_all add: IsDuplicate_def)

theorem IsDuplicate_mapping_witness:
  "IsDuplicate ''mysql'' (Some (MySQLErrorPtr (Some \<lparr>Number = 1169\<rparr>))) = Inr True
   \<and> IsDuplicate ''sqlite3'' (Some (SqliteError \<lparr>Code = 19\<rparr>)) = Inr True
   \<and> IsDuplicate ''sqlite3'' (Some (SqliteError \<lparr>Code = 1\<rparr>)) = Inr False
   \<and> IsDuplicate ''postgres'' (Some (SqliteError \<lparr>Code = 19\<rparr>)) = Inr False
   \<and> IsDuplicate ''sqlite'' (Some (SqliteError \<lparr>Code = 19\<rparr>)) = Inr False"
  using IsDuplicate_mapping [of "''postgres''" "\<lparr>Number = 1169\<rparr>" "\<lparr>Code = 19\<rparr>"
      "Some (SqliteError \<lparr>Code = 19\<rparr>)"]
    IsDuplicate_mapping [of "''sqlite''" "\<lparr>Number = 1169\<rparr>" "\<lparr>Code = 1\<rparr>"
      "Some (SqliteError \<lparr>Code = 19\<rparr>)"]
  by (simp add: ErrConstraint_def)

text \<open>
  C9. With the nil error the result is false for every driver name: the function returns
  before it reads the name.
\<close>

theorem IsDuplicate_nil: "IsDuplicate driverName None = Inr False"
  by (simp add: IsDuplicate_def)

subsection \<open>The callback\<close>

text \<open>
  C5. The claim: a callback attempt that completes an exchange with the server, whatever
  the status code of the reply, clears the user's failure counter. What the code does:
  it looks at the error that \<open>client.Do\<close> returns and at nothing else. Whatever the
  user, the state and the counter before, when the client returns a response and a nil
  error, whatever the status code of that response, the counter is absent afterwards;
  when the client returns an error, the counter is incremented by one, whether or not a
  reply was received.
\<close>

theorem dnsCallBack_follows_client:
  "(returned dl = Inr resp \<longrightarrow>
      Get (cache (dnsCallBack (returned dl) rcd w)) (errorCountKey (Uid rcd)) = None)
   \<and> (returned dl = Inl err \<longrightarrow>
      cache (dnsCallBack (returned dl) rcd w) =
        IncrementInt64 (cache w) (errorCountKey (Uid rcd)) 1)"
  by (simp add: dnsCallBack_def Get_def Delete_def)

theorem dnsCallBack_follows_client_witness:
  "Get (cache (dnsCallBack (Inr \<lparr>StatusCode = 404, Body = []\<rparr>) (example_dns 7)
          (example_world\<lparr>cache := [errorCountKey 7 \<mapsto> Int64Val 4]\<rparr>))) (errorCountKey 7) = None
   \<and> Get (cache (dnsCallBack (Inl ''giving up after 4 attempt(s)'') (example_dns 7)
          (example_world\<lparr>cache := [errorCountKey 7 \<mapsto> Int64Val 4]\<rparr>))) (errorCountKey 7) =
      Some (Int64Val 5)"
  using dnsCallBack_follows_client [of
      "\<lparr>reply = Some \<lparr>StatusCode = 404, Body = []\<rparr>,
        returned = Inr \<lparr>StatusCode = 404, Body = []\<rparr>\<rparr>"
      "\<lparr>StatusCode = 404, Body = []\<rparr>" "example_dns 7"
      "example_world\<lparr>cache := [errorCountKey 7 \<mapsto> Int64Val 4]\<rparr>"]
    dnsCallBack_follows_client [of
      "\<lparr>reply = Some \<lparr>StatusCode = 500, Body = []\<rparr>,
        returned = Inl ''giving up after 4 attempt(s)''\<rparr>"
      _ "example_dns 7"
      "example_world\<lparr>cache := [errorCountKey 7 \<mapsto> Int64Val 4]\<rparr>"
      "''giving up after 4 attempt(s)''"]
  by (simp add: example_world_def example_dns_def Get_def IncrementInt64_def)

text \<open>
  The claim as stated fails on a delivery in which the server replied with the status 500
  and the client, having used up its retries, returned an error: an exchange took place,
  and the counter, absent before, is 1 afterwards.
\<close>

theorem reply_received_counter_incremented:
  "reply \<lparr>reply = Some \<lparr>StatusCode = 500, Body = []\<rparr>,
          returned = Inl ''giving up after 4 attempt(s)''\<rparr> =
     Some \<lparr>StatusCode = 500, Body = []\<rparr>
   \<and> Get (cache (dnsCallBack
          (returned \<lparr>reply = Some \<lparr>StatusCode = 500, Body = []\<rparr>,
                     returned = Inl ''giving up after 4 attempt(s)''\<rparr>)
          (example_dns 7) example_world)) (errorCountKey 7) = Some (Int64Val 1)"
  by (simp add: dnsCallBack_def example_world_def example_dns_def Get_def IncrementInt64_def)

subsection \<open>The failure counter\<close>

lemma cache_dnsCallBack_other:
  "Uid r \<noteq> u \<Longrightarrow> Get (cache (dnsCallBack res r w)) (errorCountKey u) = Get (cache w) (errorCountKey u)"
  by (cases res)
     (auto simp: dnsCallBack_def Get_def Delete_def IncrementInt64_def Let_def
           dest: errorCountKey_inj split: option.splits cache_val.splits)

lemma cache_dnsCallBack_failure:
  "Get (cache w) (errorCountKey (Uid r)) = (if j = 0 then None else Some (Int64Val (of_nat j))) \<Longrightarrow>
   Get (cache (dnsCallBack (Inl e) r w)) (errorCountKey (Uid r)) = Some (Int64Val (of_nat (Suc j)))"
  by (simp add: dnsCallBack_def Get_def IncrementInt64_def split: if_splits)

lemma failures_counted:
  assumes "\<forall>x\<in>set cs. Uid (fst x) = u \<longrightarrow> isl (snd x)"
    and "Get (cache w) (errorCountKey u) = (if j = 0 then None else Some (Int64Val (of_nat j)))"
  shows "Get (cache (fold (\<lambda>x. dnsCallBack (snd x) (fst x)) cs w)) (errorCountKey u) =
         (if j + length (filter (\<lambda>x. Uid (fst x) = u) cs) = 0 then None
          else Some (Int64Val (of_nat (j + length (filter (\<lambda>x. Uid (fst x) = u) cs)))))"
  using assms
proof (induction cs arbitrary: w j)
  case Nil
  then show ?case by simp
next
  case (Cons x cs)
  show ?case
  proof (cases "Uid (fst x) = u")
    case True
    with Cons.prems obtain e where e: "snd x = Inl e"
      by (cases "snd x") auto
    have "Get (cache (dnsCallBack (snd x) (fst x) w)) (errorCountKey u) =
          (if Suc j = 0 then None else Some (Int64Val (of_nat (Suc j))))"
      using cache_dnsCallBack_failure [of w "fst x" j e] Cons.prems(2) True e by simp
    from Cons.IH [OF _ this] Cons.prems(1) True show ?thesis by simp
  next
    case False
    have "Get (cache (dnsCallBack (snd x) (fst x) w)) (errorCountKey u) =
          (if j = 0 then None else Some (Int64Val (of_nat j)))"
      using cache_dnsCallBack_other [OF False] Cons.prems(2) by simp
    from Cons.IH [OF _ this] Cons.prems(1) False show ?thesis by simp
  qed
qed

lemma on_rcd_skips:
  assumes "Get (cache w) (errorCountKey (Uid d)) = Some (Int64Val n)"
    and "DefaultMaxCallbackErrorCount \<le>s n"
  shows "on_rcd (DnsRecordPtr d) None w = Inr (w\<lparr>tblDns := tblDns w @ [TblDns_of d]\<rparr>)"
  using assms by (simp add: Get_def Let_def TblDns_of_def)

lemma on_rcd_dispatches:
  assumes "Get (cache w) (errorCountKey (Uid d)) = None"
    and "Callback d \<noteq> []" and "0 <s Uid d"
  shows "on_rcd (DnsRecordPtr d) None w =
         Inr (go (CallBackRoutine d) (w\<lparr>tblDns := tblDns w @ [TblDns_of d]\<rparr>))"
  using assms by (simp add: Get_def Let_def TblDns_of_def)

text \<open>
  C4. Three facts about the failure counter of a user \<open>u\<close>.

  Counting: let callbacks of any users complete in any order, those of \<open>u\<close> all with an
  error, starting from a store in which the counter of \<open>u\<close> is absent. Then the counter of
  \<open>u\<close> is the number \<open>k\<close> of callbacks of \<open>u\<close> among them, and absent when \<open>k = 0\<close>; in
  particular for every \<open>k\<close> below the cap.

  Gate: when a DNS event of a user arrives and that user's counter is at or above the cap,
  the loop inserts the row and starts no goroutine, so no request is sent.

  Reset: after one callback of the user has returned a response, the counter is absent,
  and the next DNS event of that user with a callback target and a positive user id starts
  a callback goroutine again.
\<close>

theorem failure_counter_circuit_breaker:
  "((\<forall>x\<in>set cs. Uid (fst x) = u \<longrightarrow> isl (snd x)) \<and> Get (cache w) (errorCountKey u) = None \<longrightarrow>
      Get (cache (fold (\<lambda>x. dnsCallBack (snd x) (fst x)) cs w)) (errorCountKey u) =
        (if length (filter (\<lambda>x. Uid (fst x) = u) cs) = 0 then None
         else Some (Int64Val (of_nat (length (filter (\<lambda>x. Uid (fst x) = u) cs))))))
   \<and> (Get (cache w) (errorCountKey (Uid d)) = Some (Int64Val n)
        \<and> DefaultMaxCallbackErrorCount \<le>s n \<longrightarrow>
      on_rcd (DnsRecordPtr d) None w = Inr (w\<lparr>tblDns := tblDns w @ [TblDns_of d]\<rparr>))
   \<and> (Uid r = Uid d \<and> Callback d \<noteq> [] \<and> 0 <s Uid d \<longrightarrow>
      Get (cache (dnsCallBack (Inr resp) r w)) (errorCountKey (Uid d)) = None
      \<and> on_rcd (DnsRecordPtr d) None (dnsCallBack (Inr resp) r w) =
        Inr (go (CallBackRoutine d)
          ((dnsCallBack (Inr resp) r w)\<lparr>tblDns := tblDns w @ [TblDns_of d]\<rparr>)))"
proof (intro conjI impI)
  assume "(\<forall>x\<in>set cs. Uid (fst x) = u \<longrightarrow> isl (snd x)) \<and> Get (cache w) (errorCountKey u) = None"
  then show "Get (cache (fold (\<lambda>x. dnsCallBack (snd x) (fst x)) cs w)) (errorCountKey u) =
        (if length (filter (\<lambda>x. Uid (fst x) = u) cs) = 0 then None
         else Some (Int64Val (of_nat (length (filter (\<lambda>x. Uid (fst x) = u) cs)))))"
    using failures_counted [of cs u w 0] by simp
next
  assume "Get (cache w) (errorCountKey (Uid d)) = Some (Int64Val n)
    \<and> DefaultMaxCallbackErrorCount \<le>s n"
  then have "Get (cache w) (errorCountKey (Uid d)) = Some (Int64Val n)"
    and "DefaultMaxCallbackErrorCount \<le>s n"
    by simp_all
  then show "on_rcd (DnsRecordPtr d) None w = Inr (w\<lparr>tblDns := tblDns w @ [TblDns_of d]\<rparr>)"
    by (rule on_rcd_skips)
next
  let ?w = "dnsCallBack (Inr resp) r w"
  assume "Uid r = Uid d \<and> Callback d \<noteq> [] \<and> 0 <s Uid d"
  then have same: "Uid r = Uid d" and target: "Callback d \<noteq> []" and user: "0 <s Uid d"
    by simp_all
  from same show absent: "Get (cache ?w) (errorCountKey (Uid d)) = None"
    by (simp add: dnsCallBack_def Get_def Delete_def)
  have table: "tblDns ?w = tblDns w"
    by (simp add: dnsCallBack_def)
  from on_rcd_dispatches [OF absent target user]
  show "on_rcd (DnsRecordPtr d) None ?w =
        Inr (go (CallBackRoutine d) (?w\<lparr>tblDns := tblDns w @ [TblDns_of d]\<rparr>))"
    by (simp only: table)
qed

theorem failure_counter_circuit_breaker_witness:
  "Get (cache (fold (\<lambda>x. dnsCallBack (snd x) (fst x))
          [(example_dns 7, Inl ''refused''), (example_dns 8, Inr \<lparr>StatusCode = 200, Body = []\<rparr>),
           (example_dns 7, Inl ''refused''), (example_dns 7, Inl ''timeout'')]
          example_world)) (errorCountKey 7) = Some (Int64Val 3)
   \<and> on_rcd (DnsRecordPtr (example_dns 7)) None
        (example_world\<lparr>cache := [errorCountKey 7 \<mapsto> Int64Val 5]\<rparr>) =
      Inr (example_world\<lparr>cache := [errorCountKey 7 \<mapsto> Int64Val 5],
             tblDns := [\<lparr>uid = 7, ip = ''203.0.113.9'', ctime = 0, domain = ''x.example''\<rparr>]\<rparr>)
   \<and> on_rcd (DnsRecordPtr (example_dns 7)) None
        (dnsCallBack (Inr \<lparr>StatusCode = 500, Body = []\<rparr>) (example_dns 7)
           (example_world\<lparr>cache := [errorCountKey 7 \<mapsto> Int64Val 5]\<rparr>)) =
      Inr (example_world\<lparr>cache := Map.empty, wg := 0, goroutines := [CallBackRoutine (example_dns 7)],
             tblDns := [\<lparr>uid = 7, ip = ''203.0.113.9'', ctime = 0, domain = ''x.example''\<rparr>]\<rparr>)"
  using failure_counter_circuit_breaker [where u = 7 and w = example_world and
      cs = "[(example_dns 7, Inl ''refused''), (example_dns 8, Inr \<lparr>StatusCode = 200, Body = []\<rparr>),
             (example_dns 7, Inl ''refused''), (example_dns 7, Inl ''timeout'')]" and
      d = "example_dns 7" and n = 5 and r = "example_dns 7"]
    failure_counter_circuit_breaker [where u = 7 and cs = "[]" and
      w = "example_world\<lparr>cache := [errorCountKey 7 \<mapsto> Int64Val 5]\<rparr>" and
      d = "example_dns 7" and n = 5 and r = "example_dns 7" and
      resp = "\<lparr>StatusCode = 500, Body = []\<rparr>"]
  by (simp add: example_world_def example_dns_def Get_def DefaultMaxCallbackErrorCount_def
        dnsCallBack_def Delete_def go_def Let_def word_sless_alt word_sle_eq TblDns_of_def)

subsection \<open>The loop of RunStoreRoutine\<close>

lemma go_fields [simp]:
  "cache (go g w) = cache w" "tblDns (go g w) = tblDns w" "tblHttp (go g w) = tblHttp w"
  "storeQuit (go g w) = storeQuit w"
  by (simp_all add: go_def)

lemma on_rcd_inserts:
  assumes "counters_are_int64 (cache w)"
  shows "\<exists>w'. on_rcd r None w = Inr w' \<and> cache w' = cache w \<and> tblHttp w' = tblHttp w
            \<and> storeQuit w' = storeQuit w
            \<and> tblDns w' = tblDns w @ map TblDns_of (delivered_dns [Recv r None])"
proof (cases r)
  case (DnsRecordPtr d)
  show ?thesis
  proof (cases "Get (cache w) (errorCountKey (Uid d))")
    case None
    with DnsRecordPtr show ?thesis by (simp add: Let_def TblDns_of_def)
  next
    case (Some v)
    with assms obtain n where "v = Int64Val n"
      unfolding counters_are_int64_def by blast
    with Some DnsRecordPtr show ?thesis by (simp add: Let_def TblDns_of_def)
  qed
next
  case (HttpRecordPtr h)
  then show ?thesis by simp
next
  case OtherValue
  then show ?thesis by simp
qed

lemma delivered_dns_Cons:
  "delivered_dns (x # ws) = delivered_dns [x] @ delivered_dns ws"
  by (cases x) simp_all

lemma FOR_LOOP_inserts:
  assumes "\<forall>x\<in>set ws. insert_succeeds x" and "counters_are_int64 (cache w)"
  shows "\<exists>w'. FOR_LOOP ws w = Inr w' \<and> cache w' = cache w \<and> tblHttp w' = tblHttp w
            \<and> storeQuit w' = storeQuit w
            \<and> tblDns w' = tblDns w @ map TblDns_of (delivered_dns ws)"
  using assms
proof (induction ws arbitrary: w)
  case Nil
  then show ?case by simp
next
  case (Cons x ws)
  show ?case
  proof (cases x)
    case Tick
    have "counters_are_int64 (cache (go CleanRoutine w))"
      using Cons.prems(2) by simp
    from Cons.IH [OF _ this] Cons.prems(1) Tick show ?thesis by simp
  next
    case (Recv r e)
    with Cons.prems(1) have e: "e = None" by simp
    from on_rcd_inserts [OF Cons.prems(2), of r] obtain w1 where
      w1: "on_rcd r None w = Inr w1" "cache w1 = cache w" "tblHttp w1 = tblHttp w"
        "storeQuit w1 = storeQuit w"
        "tblDns w1 = tblDns w @ map TblDns_of (delivered_dns [Recv r None])"
      by blast
    have "counters_are_int64 (cache w1)"
      using Cons.prems(2) w1(2) by simp
    from Cons.IH [OF _ this] Cons.prems(1) obtain w' where
      "FOR_LOOP ws w1 = Inr w'" "cache w' = cache w1" "tblHttp w' = tblHttp w1"
        "storeQuit w' = storeQuit w1"
        "tblDns w' = tblDns w1 @ map TblDns_of (delivered_dns ws)"
      by auto
    with w1 Recv e show ?thesis
      by (simp add: delivered_dns_Cons [of "Recv r None" ws])
  qed
qed

text \<open>
  C1. The claim: for every finite sequence of events of both variants, inserts
  succeeding, the loop persists exactly one record per event, in delivery order. What the
  code does: for the wake-ups of a stream that is then closed, every insert succeeding,
  the failure counters in the store being \<open>int64\<close> values and \<open>storeQuit\<close> open, the routine
  returns, and the DNS table is the one before followed by exactly one row per DNS event,
  in delivery order; the HTTP table is unchanged, the \<open>*HttpRecord\<close> case being empty
  (its comment says that these events are logged in the function \<open>record\<close>).
\<close>

theorem RunStoreRoutine_persists_dns:
  assumes "\<forall>x\<in>set ws. insert_succeeds x"
    and "counters_are_int64 (cache w)"
    and "\<not> storeQuit w"
  shows "\<exists>w'. RunStoreRoutine ws w = Inr w'
            \<and> tblDns w' = tblDns w @ map TblDns_of (delivered_dns ws)
            \<and> tblHttp w' = tblHttp w"
proof -
  from FOR_LOOP_inserts [OF assms(1,2)] obtain w1 where
    "FOR_LOOP ws w = Inr w1" "storeQuit w1 = storeQuit w" "tblHttp w1 = tblHttp w"
    "tblDns w1 = tblDns w @ map TblDns_of (delivered_dns ws)"
    by blast
  with assms(3) show ?thesis
    by (simp add: RunStoreRoutine_def)
qed


theorem RunStoreRoutine_persists_dns_witness:
  "\<exists>w'. RunStoreRoutine
          [Recv (DnsRecordPtr (example_dns 7)) None, Tick,
           Recv (HttpRecordPtr example_http) None,
           Recv (DnsRecordPtr (example_dns 8)) None] example_world = Inr w'
      \<and> tblDns w' =
          [\<lparr>uid = 7, ip = ''203.0.113.9'', ctime = 0, domain = ''x.example''\<rparr>,
           \<lparr>uid = 8, ip = ''203.0.113.9'', ctime = 0, domain = ''x.example''\<rparr>]
      \<and> tblHttp w' = []"
  using RunStoreRoutine_persists_dns [of
      "[Recv (DnsRecordPtr (example_dns 7)) None, Tick,
        Recv (HttpRecordPtr example_http) None,
        Recv (DnsRecordPtr (example_dns 8)) None]" example_world]
  by (simp add: example_world_def example_dns_def counters_are_int64_def Get_def TblDns_of_def)

text \<open>
  The claim as stated fails on a stream that delivers one HTTP event: the routine returns
  and both tables are still empty.
\<close>

theorem http_event_not_persisted:
  "RunStoreRoutine [Recv (HttpRecordPtr example_http) None] example_world =
     Inr (example_world\<lparr>storeQuit := True\<rparr>)
   \<and> tblDns (example_world\<lparr>storeQuit := True\<rparr>) = []
   \<and> tblHttp (example_world\<lparr>storeQuit := True\<rparr>) = []"
  by (simp add: RunStoreRoutine_def example_world_def)

subsection \<open>doClean\<close>

lemma sint_word_of_int_int64:
  assumes "- (2 ^ 63) \<le> k" and "k < 2 ^ 63"
  shows "sint (word_of_int k :: int64) = k"
  unfolding sint_sbintrunc' using assms by (simp add: signed_take_bit_int_eq_self)

lemma Add_interval:
  assumes "- (2 ^ 63) \<le> - (sint iv * 1000000000)" and "- (sint iv * 1000000000) < 2 ^ 63"
  shows "Add now ((- 1) * iv * Second) = now - sint iv * 1000000000"
proof -
  have "(- 1) * iv * Second = word_of_int (- (sint iv * 1000000000))"
    by (simp add: Second_def)
  then have "sint ((- 1) * iv * Second) = - (sint iv * 1000000000)"
    using sint_word_of_int_int64 [OF assms] by (simp only:)
  then show ?thesis
    by (simp only: Add_def)
qed

lemma expired_absent:
  "Get c (userKey n) = None \<Longrightarrow>
   filter (\<lambda>r. \<not> (uid r \<in> set (n # ids) \<and> expired c now r)) rows =
   filter (\<lambda>r. \<not> (uid r \<in> set ids \<and> expired c now r)) rows"
  by (rule filter_cong) (auto simp: expired_def)

lemma expired_found:
  "Get c (userKey n) = Some (UserVal p) \<Longrightarrow>
   filter (\<lambda>r. \<not> (uid r \<in> set ids \<and> expired c now r))
     (Where_Delete n (Add now ((- 1) * CleanInterval p * Second)) rows) =
   filter (\<lambda>r. \<not> (uid r \<in> set (n # ids) \<and> expired c now r)) rows"
  unfolding Where_Delete_def filter_filter
  by (rule filter_cong) (auto simp: expired_def)

lemma clean_loop_result:
  assumes "profiles_are_users (cache w) ids"
  shows "clean_loop now ids w =
         Inr (w\<lparr>tblDns := filter (\<lambda>r. \<not> (uid r \<in> set ids \<and> expired (cache w) now r)) (tblDns w),
                tblHttp := filter (\<lambda>r. \<not> (uid r \<in> set ids \<and> expired (cache w) now r)) (tblHttp w)\<rparr>)"
  using assms
proof (induction ids arbitrary: w)
  case Nil
  then show ?case by simp
next
  case (Cons n ids)
  from Cons.prems have rest: "profiles_are_users (cache w) ids"
    by (simp add: profiles_are_users_def)
  show ?case
  proof (cases "Get (cache w) (userKey n)")
    case None
    then have "clean_loop now (n # ids) w = clean_loop now ids w" by simp
    also note Cons.IH [OF rest]
    finally show ?thesis
      by (simp only: expired_absent [OF None])
  next
    case (Some v)
    with Cons.prems obtain p where v: "v = UserVal p"
      by (auto simp: profiles_are_users_def)
    define t where "t = Add now ((- 1) * CleanInterval p * Second)"
    define w1 where "w1 = w\<lparr>tblDns := Where_Delete n t (tblDns w),
                              tblHttp := Where_Delete n t (tblHttp w)\<rparr>"
    have c1: "cache w1 = cache w" by (simp add: w1_def)
    have found: "Get (cache w) (userKey n) = Some (UserVal p)"
      using Some v by simp
    from rest have "profiles_are_users (cache w1) ids" by (simp add: c1)
    note Cons.IH [OF this]
    moreover have "clean_loop now (n # ids) w = clean_loop now ids w1"
      using found by (simp add: w1_def t_def Let_def)
    moreover have "tblDns w1 = Where_Delete n t (tblDns w)" "tblHttp w1 = Where_Delete n t (tblHttp w)"
      by (simp_all add: w1_def)
    ultimately have "clean_loop now (n # ids) w =
         Inr (w1\<lparr>tblDns := filter (\<lambda>r. \<not> (uid r \<in> set ids \<and> expired (cache w) now r))
                             (Where_Delete n t (tblDns w)),
                 tblHttp := filter (\<lambda>r. \<not> (uid r \<in> set ids \<and> expired (cache w) now r))
                             (Where_Delete n t (tblHttp w))\<rparr>)"
      by (simp only: c1)
    then have "clean_loop now (n # ids) w =
         Inr (w1\<lparr>tblDns := filter (\<lambda>r. \<not> (uid r \<in> set (n # ids) \<and> expired (cache w) now r)) (tblDns w),
                 tblHttp := filter (\<lambda>r. \<not> (uid r \<in> set (n # ids) \<and> expired (cache w) now r)) (tblHttp w)\<rparr>)"
      unfolding t_def by (simp only: expired_found [OF found])
    then show ?thesis
      by (simp add: w1_def)
  qed
qed

lemma expired_user:
  assumes "Get c (userKey n) = Some (UserVal p)"
    and "- (2 ^ 63) \<le> - (sint (CleanInterval p) * 1000000000)"
    and "- (sint (CleanInterval p) * 1000000000) < 2 ^ 63"
    and "uid r = n"
  shows "expired c now r = (ctime r < now - sint (CleanInterval p) * 1000000000)"
  using assms(1,4) Add_interval [OF assms(2,3), of now]
  by (simp add: expired_def)

lemma kept_of_user:
  assumes "Get c (userKey n) = Some (UserVal p)"
    and "- (2 ^ 63) \<le> - (sint (CleanInterval p) * 1000000000)"
    and "- (sint (CleanInterval p) * 1000000000) < 2 ^ 63"
    and "n \<in> set ids"
  shows "filter (\<lambda>r. uid r = n) (filter (\<lambda>r. \<not> (uid r \<in> set ids \<and> expired c T r)) rows) =
         filter (\<lambda>r. uid r = n \<and> \<not> ctime r < T - sint (CleanInterval p) * 1000000000) rows"
  unfolding filter_filter
  by (rule filter_cong) (use assms(4) expired_user [OF assms(1,2,3), of _ T] in auto)

lemma userKey_inj: "userKey m = userKey n \<Longrightarrow> m = n"
  by (auto simp: userKey_eq dest!: FormatInt_inj intro: signed_word_eqI)

text \<open>
  What a run deletes once the lookup at line 107 finds a profile. Times are in
  nanoseconds, so that \<open>I\<close> seconds are \<open>I * 1000000000\<close>. Let the user be in the user
  table, let the store hold the profile \<open>p\<close> under the key that line 106 forms, let every
  value the run reads under such a key be a profile, and let \<open>I\<close> seconds fit the 64-bit
  \<open>time.Duration\<close>. Then the run returns, and of the user's rows in either table exactly
  those stay whose time is not earlier than \<open>T - I\<close>, in their order.
\<close>

lemma doClean_deletes_expired:
  assumes "u \<in> set (tblUser w)"
    and "Get (cache w) (userKey (Id u)) = Some (UserVal p)"
    and "profiles_are_users (cache w) (map Id (tblUser w))"
    and "- (2 ^ 63) \<le> - (sint (CleanInterval p) * 1000000000)"
    and "- (sint (CleanInterval p) * 1000000000) < 2 ^ 63"
  shows "\<exists>w'. doClean None T w = Inr w'
          \<and> filter (\<lambda>r. uid r = Id u) (tblDns w') =
            filter (\<lambda>r. uid r = Id u \<and> \<not> ctime r < T - sint (CleanInterval p) * 1000000000)
              (tblDns w)
          \<and> filter (\<lambda>r. uid r = Id u) (tblHttp w') =
            filter (\<lambda>r. uid r = Id u \<and> \<not> ctime r < T - sint (CleanInterval p) * 1000000000)
              (tblHttp w)"
proof -
  let ?ids = "map Id (tblUser w)"
  define w' where
    "w' = w\<lparr>tblDns := filter (\<lambda>r. \<not> (uid r \<in> set ?ids \<and> expired (cache w) T r)) (tblDns w),
            tblHttp := filter (\<lambda>r. \<not> (uid r \<in> set ?ids \<and> expired (cache w) T r)) (tblHttp w)\<rparr>"
  have run: "doClean None T w = Inr w'"
    using clean_loop_result [OF assms(3), of T]
    by (simp add: doClean_def Local_def w'_def)
  have member: "Id u \<in> set ?ids"
    using assms(1) by simp
  have tables:
    "tblDns w' = filter (\<lambda>r. \<not> (uid r \<in> set ?ids \<and> expired (cache w) T r)) (tblDns w)"
    "tblHttp w' = filter (\<lambda>r. \<not> (uid r \<in> set ?ids \<and> expired (cache w) T r)) (tblHttp w)"
    by (simp_all add: w'_def)
  note kept = kept_of_user [OF assms(2,4,5) member, of T]
  have "filter (\<lambda>r. uid r = Id u) (tblDns w') =
        filter (\<lambda>r. uid r = Id u \<and> \<not> ctime r < T - sint (CleanInterval p) * 1000000000)
          (tblDns w)"
    by (simp only: tables kept)
  moreover have "filter (\<lambda>r. uid r = Id u) (tblHttp w') =
        filter (\<lambda>r. uid r = Id u \<and> \<not> ctime r < T - sint (CleanInterval p) * 1000000000)
          (tblHttp w)"
    by (simp only: tables kept)
  ultimately show ?thesis
    using run by blast
qed

text \<open>
  An interval that does not fit: with ten thousand million seconds the product at line
  110 wraps around to a positive duration, the cutoff lies in the future, and a row that
  is one second old is deleted.
\<close>

lemma doClean_interval_wraps:
  "doClean None 0
     (example_clean_world 10000000000
        [\<lparr>uid = 1, ip = ''203.0.113.9'', ctime = - 1000000000, domain = ''a.example''\<rparr>]) =
   Inr (example_clean_world 10000000000 [])"
  by (simp add: doClean_def example_clean_world_def Get_def Let_def Add_def Second_def
        Where_Delete_def userKey_inj)

text \<open>
  C6. The claim: for every user found in the store with retention interval \<open>I\<close>, a run at
  the time \<open>T\<close> deletes exactly that user's records older than \<open>T - I\<close>; with 7200
  seconds and noon, a record of 09:59:59 is deleted. The code looks the profile up under
  the text that \<open>Sprintf\<close> makes of a format without a verb (line 106), where the keys of
  lines 133 and 183 are formed with \<open>%v\<close>. With the profile of user 1 in the store under
  \<open>1.user\<close>, the retention interval 7200 seconds and a run at noon, the lookup misses,
  the user is skipped, and the run returns the state as it was: the record of 09:59:59,
  older than the cutoff, is still in the table.
\<close>

theorem doClean_misses_profile:
  "Get (cache example_conventional_world) ''1.user'' =
     Some (UserVal \<lparr>Id = 1, CleanInterval = 7200\<rparr>)
   \<and> \<lparr>Id = 1, CleanInterval = 7200\<rparr> \<in> set (tblUser example_conventional_world)
   \<and> doClean None 43200000000000 example_conventional_world = Inr example_conventional_world
   \<and> tblDns example_conventional_world ! 0 =
       \<lparr>uid = 1, ip = ''203.0.113.9'', ctime = 35999000000000, domain = ''a.example''\<rparr>
   \<and> (35999000000000 :: int) < 43200000000000 - 7200 * 1000000000"
  by (simp add: doClean_def example_conventional_world_def example_clean_world_def
        example_rows_def Get_def Let_def userKey_eq)

subsection \<open>Shutdown\<close>











lemma finished_fields [simp]:
  "storeQuit (finished i w) = storeQuit w" "cache (finished i w) = cache w"
  "tblUser (finished i w) = tblUser w"
  by (simp_all add: finished_def)



















end
